theory Spec2Isabelle
  imports Main "HOL-Library.Word"
begin

unbundle bit_operations_syntax

section \<open>Data model of a connection\<close>

text \<open>
  The development embeds \<^verbatim>\<open>src/uWebSockets/src/WebSocket.cpp\<close>: \<^verbatim>\<open>send\<close>,
  \<^verbatim>\<open>onData\<close>, \<^verbatim>\<open>terminate\<close>, \<^verbatim>\<open>close\<close>, \<^verbatim>\<open>onEnd\<close>, \<^verbatim>\<open>handleFragment\<close>,
  \<^verbatim>\<open>base64\<close> and \<^verbatim>\<open>upgrade\<close>. A \<^verbatim>\<open>char *\<close> or \<^verbatim>\<open>unsigned char *\<close> buffer is a
  list of 8-bit words: the bytes readable from the pointer, in order. The byte count
  that travels with the pointer in the C++ code stays a separate argument (called
  \<open>len\<close>, since \<open>length\<close> is the list function); the code reads the first \<open>len\<close>
  bytes of such a buffer, which the caller guarantees to be there. A string literal
  of the source is written \<open>bytes_of ''...''\<close>.
\<close>

type_synonym byte = "8 word"

definition byte_of :: "char \<Rightarrow> byte" where
  "byte_of c = word_of_nat (of_char c)"

definition bytes_of :: "string \<Rightarrow> byte list" where
  "bytes_of cs = map byte_of cs"


datatype CompressionStatus = DISABLED | ENABLED | COMPRESSED_FRAME

text \<open>
  A completion callback is a function pointer together with its \<^verbatim>\<open>callbackData\<close>.
  The only callback the file itself defines is the lambda that \<^verbatim>\<open>close\<close> hands to
  \<^verbatim>\<open>send\<close> (\<open>CloseCallback\<close>); callbacks of the application are opaque and are
  told apart by a number. An invocation of an application callback is recorded in the
  trace and is taken to leave the connection as it is: a callback that calls back into
  the connection while it runs is outside the model.
\<close>

datatype callback = CloseCallback | UserCallback nat

text \<open>\<^verbatim>\<open>Queue::Message\<close>: the bytes still to be written and the optional callback.\<close>

record Message =
  msg_data :: "byte list"
  msg_callback :: "callback option"

text \<open>
  Calls that leave the file (socket layer, group bookkeeping, zlib, application
  callbacks) are recorded, in order, in the \<open>trace\<close> of the connection.
  \<open>CallbackInvoked cb conn cancelled\<close> records a call \<^verbatim>\<open>cb(conn, data, cancelled, nullptr)\<close>,
  where \<open>conn\<close> tells whether the connection argument is non-null.
\<close>

datatype event =
    CallbackInvoked callback bool bool
  | Shutdown
  | Cork bool
  | RemoveWebSocket
  | CloseSocket
  | ClearPendingPollChanges
  | DeflateEnd nat
  | DeleteZStream nat
  | WriteCalled "byte list"

record WebSocket =
  fragmentBuffer :: "byte list"
  controlTipLength :: nat
  compressionStatus :: CompressionStatus
  slidingDeflateWindow :: "nat option"
  hasOutstandingPong :: bool
  shuttingDown :: bool
  closed :: bool
  messageQueue :: "Message list"
  trace :: "event list"

text \<open>\<^verbatim>\<open>WebSocketProtocol::CloseFrame\<close>, the result of \<^verbatim>\<open>parseClosePayload\<close>.\<close>

record CloseFrame =
  cf_code :: int
  cf_message :: "byte list"
  cf_length :: nat

text \<open>What the socket layer reports for one write of a buffer.\<close>

datatype writeOutcome = WriteFailed | WriteDrained | WritePending

text \<open>
  Everything the file calls but does not define is a parameter of the model: the build
  flag \<^verbatim>\<open>UWS_THREADSAFE\<close>, the role, the default of the \<^verbatim>\<open>compress\<close> argument of
  \<^verbatim>\<open>send\<close> (declared in the header), the group (\<^verbatim>\<open>maxPayload\<close> and the handlers, each
  a transformer of the connection it is given), the hub's \<^verbatim>\<open>inflate\<close> and \<^verbatim>\<open>deflate\<close>
  (the byte count is passed as an lvalue, so both give back the buffer and the count that
  holds afterwards; a null result of \<^verbatim>\<open>inflate\<close> is \<open>None\<close>), the protocol's
  \<^verbatim>\<open>isValidUtf8\<close>, \<^verbatim>\<open>parseClosePayload\<close>, \<^verbatim>\<open>formatClosePayload\<close> (the bytes written
  to \<^verbatim>\<open>dst\<close>; the returned count is their number), \<^verbatim>\<open>consume\<close> and \<^verbatim>\<open>forceClose\<close>,
  the mask key a client draws for a frame, the outcome of a socket write and
  \<^verbatim>\<open>SHA1\<close>.
\<close>

record env =
  UWS_THREADSAFE :: bool
  isServer :: bool
  defaultCompress :: bool
  maxPayload :: nat
  messageHandler :: "byte list \<Rightarrow> nat \<Rightarrow> int \<Rightarrow> WebSocket \<Rightarrow> WebSocket"
  pingHandler :: "byte list \<Rightarrow> nat \<Rightarrow> WebSocket \<Rightarrow> WebSocket"
  pongHandler :: "byte list \<Rightarrow> nat \<Rightarrow> WebSocket \<Rightarrow> WebSocket"
  disconnectionHandler :: "int \<Rightarrow> WebSocket \<Rightarrow> WebSocket"
  hub_inflate :: "byte list \<Rightarrow> nat \<Rightarrow> nat \<Rightarrow> (byte list \<times> nat) option"
  hub_deflate :: "byte list \<Rightarrow> nat \<Rightarrow> nat option \<Rightarrow> byte list \<times> nat"
  isValidUtf8 :: "byte list \<Rightarrow> nat \<Rightarrow> bool"
  parseClosePayload :: "byte list \<Rightarrow> nat \<Rightarrow> CloseFrame"
  formatClosePayload :: "int \<Rightarrow> byte list \<Rightarrow> nat \<Rightarrow> byte list"
  consume :: "byte list \<Rightarrow> nat \<Rightarrow> WebSocket \<Rightarrow> WebSocket"
  forceClose :: "WebSocket \<Rightarrow> WebSocket"
  maskKey :: "byte list"
  socketWrite :: "WebSocket \<Rightarrow> byte list \<Rightarrow> writeOutcome"

text \<open>The opcodes (\<^verbatim>\<open>enum OpCode\<close>), with the values the specification lists.\<close>

definition TEXT :: int where "TEXT = 1"
definition BINARY :: int where "BINARY = 2"
definition CLOSE :: int where "CLOSE = 8"
definition PING :: int where "PING = 9"
definition PONG :: int where "PONG = 10"

definition logEvent :: "event \<Rightarrow> WebSocket \<Rightarrow> WebSocket" where
  "logEvent e s = s\<lparr>trace := trace s @ [e]\<rparr>"

section \<open>Socket layer and frame codec\<close>

text \<open>Modelled from the spec: \<^verbatim>\<open>isClosed\<close>, \<^verbatim>\<open>isShuttingDown\<close> and \<^verbatim>\<open>setShuttingDown\<close>
  of the socket layer read and write the flags \<open>closed\<close> and \<open>shuttingDown\<close> of the
  data model.\<close>

definition isClosed :: "WebSocket \<Rightarrow> bool" where
  "isClosed s = closed s"

definition isShuttingDown :: "WebSocket \<Rightarrow> bool" where
  "isShuttingDown s = shuttingDown s"

definition setShuttingDown :: "bool \<Rightarrow> WebSocket \<Rightarrow> WebSocket" where
  "setShuttingDown b s = s\<lparr>shuttingDown := b\<rparr>"

text \<open>Modelled from the spec: \<^verbatim>\<open>cork\<close>, \<^verbatim>\<open>shutdown\<close> (half-close of the write
  side), \<^verbatim>\<open>Group::removeWebSocket\<close> and \<^verbatim>\<open>clearPendingPollChanges\<close> belong to the
  socket layer and the group; the model records the call.\<close>

definition cork :: "bool \<Rightarrow> WebSocket \<Rightarrow> WebSocket" where
  "cork b s = logEvent (Cork b) s"

definition shutdown :: "WebSocket \<Rightarrow> WebSocket" where
  "shutdown s = logEvent Shutdown s"

definition removeWebSocket :: "WebSocket \<Rightarrow> WebSocket" where
  "removeWebSocket s = logEvent RemoveWebSocket s"

definition clearPendingPollChanges :: "WebSocket \<Rightarrow> WebSocket" where
  "clearPendingPollChanges s = logEvent ClearPendingPollChanges s"

text \<open>Modelled from the spec: \<^verbatim>\<open>closeSocket\<close> closes the underlying socket; from then
  on the terminal flag \<open>closed\<close> is set.\<close>

definition closeSocket :: "WebSocket \<Rightarrow> WebSocket" where
  "closeSocket s = logEvent CloseSocket (s\<lparr>closed := True\<rparr>)"

text \<open>
  A call \<^verbatim>\<open>callback(conn, callbackData, cancelled, nullptr)\<close>. The body of the lambda
  of \<^verbatim>\<open>close\<close> (lines 147-151) is \<^verbatim>\<open>if (!cancelled) p->shutdown()\<close>; a callback of the
  application is opaque.
\<close>

definition invokeCallback :: "callback \<Rightarrow> bool \<Rightarrow> bool \<Rightarrow> WebSocket \<Rightarrow> WebSocket" where
  "invokeCallback cb conn cancelled s =
     (let s1 = logEvent (CallbackInvoked cb conn cancelled) s
      in case cb of
           CloseCallback \<Rightarrow> (if \<not> cancelled then shutdown s1 else s1)
         | UserCallback k \<Rightarrow> s1)"

definition invokeIfSet :: "callback option \<Rightarrow> bool \<Rightarrow> bool \<Rightarrow> WebSocket \<Rightarrow> WebSocket" where
  "invokeIfSet callback conn cancelled s =
     (case callback of None \<Rightarrow> s | Some cb \<Rightarrow> invokeCallback cb conn cancelled s)"

text \<open>Modelled from the spec: \<^verbatim>\<open>uS::Socket::write(message, waiting)\<close> hands the buffer
  to the socket. The write fails (result false), or the socket takes the whole buffer
  at once (result true, nothing retained), or the socket is still draining (result
  true, \<open>waiting\<close> set, the message retained at the back of \<open>messageQueue\<close>).\<close>

definition write_msg :: "env \<Rightarrow> Message \<Rightarrow> WebSocket \<Rightarrow> bool \<times> bool \<times> WebSocket" where
  "write_msg e m s =
     (let s1 = logEvent (WriteCalled (msg_data m)) s
      in case socketWrite e s (msg_data m) of
           WriteFailed \<Rightarrow> (False, False, s1)
         | WriteDrained \<Rightarrow> (True, False, s1)
         | WritePending \<Rightarrow> (True, True, s1\<lparr>messageQueue := messageQueue s1 @ [m]\<rparr>))"

text \<open>Modelled from the spec: \<^verbatim>\<open>WebSocketProtocol::formatMessage(dst, src, length,
  opCode, reportedLength, compressed)\<close> writes one frame and returns its size; the model
  gives the bytes written. First byte: FIN, RSV1 if \<open>compressed\<close> and the opcode is a data
  opcode, and the opcode. Second byte: the mask flag (set for the client role) and the
  length field (the length itself below 126, \<open>0x7E\<close> before a 16-bit length, \<open>0x7F\<close> before
  a 64-bit length, both big-endian). A client appends the 4-byte mask key and masks the
  payload with it.\<close>

definition bigEndian :: "nat \<Rightarrow> nat \<Rightarrow> byte list" where
  "bigEndian k n = map (\<lambda>i. word_of_nat (n div 256 ^ i)) (rev [0..<k])"

definition lengthField :: "nat \<Rightarrow> byte list" where
  "lengthField n =
     (if n < 126 then [word_of_nat n]
      else if n \<le> 65535 then 0x7E # bigEndian 2 n
      else 0x7F # bigEndian 8 n)"

definition maskPayload :: "byte list \<Rightarrow> byte list \<Rightarrow> byte list" where
  "maskPayload key payload =
     map (\<lambda>(i, b). b XOR key ! (i mod 4)) (zip [0..<length payload] payload)"

definition formatMessage :: "env \<Rightarrow> byte list \<Rightarrow> nat \<Rightarrow> int \<Rightarrow> nat \<Rightarrow> bool \<Rightarrow> byte list" where
  "formatMessage e src len opCode reportedLength compressed =
     (let first = 0x80 OR (if compressed \<and> opCode < 3 then 0x40 else 0) OR word_of_int opCode;
          lenBytes = lengthField reportedLength;
          payload = take len src
      in if isServer e then first # lenBytes @ payload
         else first # (hd lenBytes OR 0x80) # tl lenBytes @ take 4 (maskKey e)
                @ maskPayload (take 4 (maskKey e)) payload)"

section \<open>send (lines 26-63)\<close>

text \<open>The local \<^verbatim>\<open>struct TransformData\<close>; its pointer \<^verbatim>\<open>s\<close> is the connection
  itself.\<close>

record TransformData =
  td_opCode :: int
  td_compress :: bool

definition HEADER_LENGTH :: nat where "HEADER_LENGTH = 10"

definition estimate :: "byte list \<Rightarrow> nat \<Rightarrow> nat" where
  "estimate d len = len + HEADER_LENGTH"

text \<open>\<^verbatim>\<open>WebSocketTransformer::transform\<close> (lines 52-59): the frame it writes to
  \<^verbatim>\<open>dst\<close>.\<close>

definition transform :: "env \<Rightarrow> WebSocket \<Rightarrow> byte list \<Rightarrow> nat \<Rightarrow> TransformData \<Rightarrow> byte list" where
  "transform e s src len transformData =
     (if td_compress transformData then
        (case hub_deflate e src len (slidingDeflateWindow s) of
           (deflated, len') \<Rightarrow>
             formatMessage e deflated len' (td_opCode transformData) len' True)
      else formatMessage e src len (td_opCode transformData) len False)"

text \<open>Modelled from the spec: \<^verbatim>\<open>sendTransformed\<close> (socket layer) runs the transformer
  and hands the frame to the write queue. If the socket drained at once the callback is
  invoked with \<open>cancelled = false\<close>; if it is still draining the buffer is retained with
  its callback; if the write failed the callback is invoked with \<open>cancelled = true\<close>.\<close>

definition sendTransformed ::
  "env \<Rightarrow> byte list \<Rightarrow> nat \<Rightarrow> callback option \<Rightarrow> TransformData \<Rightarrow> WebSocket \<Rightarrow> WebSocket" where
  "sendTransformed e message len callback transformData s =
     (let frame = transform e s message len transformData
      in case write_msg e \<lparr>msg_data = frame, msg_callback = callback\<rparr> s of
           (ok, waiting, s1) \<Rightarrow>
             if ok then (if \<not> waiting then invokeIfSet callback True False s1 else s1)
             else invokeIfSet callback True True s1)"

definition send ::
  "env \<Rightarrow> byte list \<Rightarrow> nat \<Rightarrow> int \<Rightarrow> callback option \<Rightarrow> bool \<Rightarrow> WebSocket \<Rightarrow> WebSocket" where
  "send e message len opCode callback compress s =
     (if UWS_THREADSAFE e \<and> isClosed s then invokeIfSet callback True True s
      else
        let transformData =
              \<lparr>td_opCode = opCode,
               td_compress = (compress \<and> compressionStatus s = ENABLED \<and> opCode < 3)\<rparr>
        in sendTransformed e message len callback transformData s)"

section \<open>onData (lines 65-79)\<close>

text \<open>Line 72 hands the parser the byte count cast to \<^verbatim>\<open>unsigned int\<close>, 32 bits wide:
  the count reduced modulo \<open>2 ^ 32\<close>.\<close>

definition onData :: "env \<Rightarrow> byte list \<Rightarrow> nat \<Rightarrow> WebSocket \<Rightarrow> WebSocket" where
  "onData e d len s =
     (let s1 = s\<lparr>hasOutstandingPong := False\<rparr>
      in if \<not> isShuttingDown s1 then
           (let s2 = consume e d (len mod 2 ^ 32) (cork True s1)
            in if \<not> isClosed s2 then cork False s2 else s2)
         else s1)"

section \<open>onEnd, terminate and close (lines 87-98, 139-182)\<close>

text \<open>The loop of lines 165-171: the front message's callback, when set, is called with
  a null connection and \<open>cancelled = true\<close>, then the message is popped.\<close>

function drainMessageQueue :: "WebSocket \<Rightarrow> WebSocket" where
  "drainMessageQueue s =
     (if messageQueue s \<noteq> [] then
        (let message = hd (messageQueue s);
             s1 = invokeIfSet (msg_callback message) False True s
         in drainMessageQueue (s1\<lparr>messageQueue := tl (messageQueue s1)\<rparr>))
      else s)"
  by pat_completeness auto

termination drainMessageQueue
  by (relation "measure (\<lambda>s. length (messageQueue s))")
     (auto simp: invokeIfSet_def invokeCallback_def shutdown_def logEvent_def Let_def
        intro: diff_less split: option.splits callback.splits)

definition onEnd :: "env \<Rightarrow> int \<Rightarrow> WebSocket \<Rightarrow> WebSocket" where
  "onEnd e code s =
     (let s1 = removeWebSocket s;
          s2 = disconnectionHandler e code s1;
          s3 = closeSocket s2;
          s4 = drainMessageQueue s3;
          s5 = clearPendingPollChanges s4
      in case slidingDeflateWindow s5 of
           Some w \<Rightarrow> (logEvent (DeleteZStream w) (logEvent (DeflateEnd w) s5))
                       \<lparr>slidingDeflateWindow := None\<rparr>
         | None \<Rightarrow> s5)"

text \<open>\<^verbatim>\<open>terminate\<close>: the header's default for the code of \<^verbatim>\<open>onEnd\<close> is 1006 (the
  comment of lines 81-86 and the specification say so).\<close>

definition terminate :: "env \<Rightarrow> WebSocket \<Rightarrow> WebSocket" where
  "terminate e s = (if UWS_THREADSAFE e \<and> isClosed s then s else onEnd e 1006 s)"

definition MAX_CLOSE_PAYLOAD :: nat where "MAX_CLOSE_PAYLOAD = 123"

definition close :: "env \<Rightarrow> int \<Rightarrow> byte list \<Rightarrow> nat \<Rightarrow> WebSocket \<Rightarrow> WebSocket" where
  "close e code message len s =
     (let len1 = min MAX_CLOSE_PAYLOAD len;
          s1 = setShuttingDown True s;
          closePayload = formatClosePayload e code message len1;
          closePayloadLength = length closePayload;
          s2 = send e closePayload closePayloadLength CLOSE (Some CloseCallback)
                 (defaultCompress e) s1
      in onEnd e code s2)"

section \<open>handleFragment (lines 184-289)\<close>

text \<open>Lines 200-208: the tail of the direct path for a data frame.\<close>

definition deliverDirect :: "env \<Rightarrow> byte list \<Rightarrow> nat \<Rightarrow> int \<Rightarrow> WebSocket \<Rightarrow> WebSocket \<times> bool" where
  "deliverDirect e d len opCode s =
     (if opCode = 1 \<and> \<not> isValidUtf8 e d len then (forceClose e s, True)
      else
        let s1 = messageHandler e d len opCode s
        in if isClosed s1 \<or> isShuttingDown s1 then (s1, True) else (s1, False))"

text \<open>Lines 191-208: a data frame that is complete in one slice while nothing is
  buffered.\<close>

definition handleDataDirect :: "env \<Rightarrow> byte list \<Rightarrow> nat \<Rightarrow> int \<Rightarrow> WebSocket \<Rightarrow> WebSocket \<times> bool" where
  "handleDataDirect e d len opCode s =
     (if compressionStatus s = COMPRESSED_FRAME then
        (let s1 = s\<lparr>compressionStatus := ENABLED\<rparr>
         in case hub_inflate e d len (maxPayload e) of
              None \<Rightarrow> (forceClose e s1, True)
            | Some (d', len') \<Rightarrow> deliverDirect e d' len' opCode s1)
      else deliverDirect e d len opCode s)"

text \<open>Lines 225-234: the tail of the buffered path; only here the buffer is cleared,
  and only when the connection is neither closed nor shutting down after the handler.\<close>

definition deliverBuffered :: "env \<Rightarrow> byte list \<Rightarrow> nat \<Rightarrow> int \<Rightarrow> WebSocket \<Rightarrow> WebSocket \<times> bool" where
  "deliverBuffered e d len opCode s =
     (if opCode = 1 \<and> \<not> isValidUtf8 e d len then (forceClose e s, True)
      else
        let s1 = messageHandler e d len opCode s
        in if isClosed s1 \<or> isShuttingDown s1 then (s1, True)
           else (s1\<lparr>fragmentBuffer := []\<rparr>, False))"

text \<open>Lines 210-235. The literal \<^verbatim>\<open>"...."\<close> of line 215 is four bytes \<open>0x2E\<close>; the
  count handed to \<^verbatim>\<open>inflate\<close> is the one taken at line 212, before they are appended.\<close>

definition handleDataBuffered ::
  "env \<Rightarrow> byte list \<Rightarrow> nat \<Rightarrow> nat \<Rightarrow> int \<Rightarrow> bool \<Rightarrow> WebSocket \<Rightarrow> WebSocket \<times> bool" where
  "handleDataBuffered e d len remainingBytes opCode fin s =
     (let s1 = s\<lparr>fragmentBuffer := fragmentBuffer s @ take len d\<rparr>
      in if remainingBytes = 0 \<and> fin then
           (let len1 = length (fragmentBuffer s1)
            in if compressionStatus s1 = COMPRESSED_FRAME then
                 (let s2 = s1\<lparr>compressionStatus := ENABLED,
                              fragmentBuffer := fragmentBuffer s1 @ bytes_of ''....''\<rparr>
                  in case hub_inflate e (fragmentBuffer s2) len1 (maxPayload e) of
                       None \<Rightarrow> (forceClose e s2, True)
                     | Some (d', len') \<Rightarrow> deliverBuffered e d' len' opCode s2)
               else deliverBuffered e (fragmentBuffer s1) len1 opCode s1)
         else (s1, False))"

text \<open>Lines 239-256: a control frame that is complete in one slice while no control
  frame is being accumulated. \<^verbatim>\<open>send\<close> is called with the header's defaults (no
  callback).\<close>

definition handleControlDirect :: "env \<Rightarrow> byte list \<Rightarrow> nat \<Rightarrow> int \<Rightarrow> WebSocket \<Rightarrow> WebSocket \<times> bool" where
  "handleControlDirect e d len opCode s =
     (if opCode = CLOSE then
        (let closeFrame = parseClosePayload e d len
         in (close e (cf_code closeFrame) (cf_message closeFrame) (cf_length closeFrame) s, True))
      else if opCode = PING then
        (let s1 = send e d len PONG None (defaultCompress e) s;
             s2 = pingHandler e d len s1
         in if isClosed s2 \<or> isShuttingDown s2 then (s2, True) else (s2, False))
      else if opCode = PONG then
        (let s2 = pongHandler e d len s
         in if isClosed s2 \<or> isShuttingDown s2 then (s2, True) else (s2, False))
      else (s, False))"

text \<open>Lines 282-283.\<close>

definition dropControlTip :: "WebSocket \<Rightarrow> WebSocket" where
  "dropControlTip s =
     s\<lparr>fragmentBuffer := take (length (fragmentBuffer s) - controlTipLength s) (fragmentBuffer s),
       controlTipLength := 0\<rparr>"

text \<open>Lines 258-285. \<^verbatim>\<open>controlBuffer\<close> (line 262) points \<open>controlTipLength\<close> bytes before
  the end of the buffer; when the buffer is shorter than that the pointer is out of
  bounds and the behaviour is undefined (\<open>None\<close>).\<close>

definition handleControlBuffered ::
  "env \<Rightarrow> byte list \<Rightarrow> nat \<Rightarrow> nat \<Rightarrow> int \<Rightarrow> bool \<Rightarrow> WebSocket \<Rightarrow> (WebSocket \<times> bool) option" where
  "handleControlBuffered e d len remainingBytes opCode fin s =
     (let s1 = s\<lparr>fragmentBuffer := fragmentBuffer s @ take len d,
                  controlTipLength := controlTipLength s + len\<rparr>
      in if remainingBytes = 0 \<and> fin then
           (if length (fragmentBuffer s1) < controlTipLength s1 then None
            else
              let controlBuffer =
                    drop (length (fragmentBuffer s1) - controlTipLength s1) (fragmentBuffer s1)
              in if opCode = CLOSE then
                   (let closeFrame = parseClosePayload e controlBuffer (controlTipLength s1)
                    in Some (close e (cf_code closeFrame) (cf_message closeFrame)
                               (cf_length closeFrame) s1, True))
                 else if opCode = PING then
                   (let s2 = send e controlBuffer (controlTipLength s1) PONG None
                               (defaultCompress e) s1;
                        s3 = pingHandler e controlBuffer (controlTipLength s1) s2
                    in if isClosed s3 \<or> isShuttingDown s3 then Some (s3, True)
                       else Some (dropControlTip s3, False))
                 else if opCode = PONG then
                   (let s3 = pongHandler e controlBuffer (controlTipLength s1) s1
                    in if isClosed s3 \<or> isShuttingDown s3 then Some (s3, True)
                       else Some (dropControlTip s3, False))
                 else Some (dropControlTip s1, False))
         else Some (s1, False))"

definition handleFragment ::
  "env \<Rightarrow> byte list \<Rightarrow> nat \<Rightarrow> nat \<Rightarrow> int \<Rightarrow> bool \<Rightarrow> WebSocket \<Rightarrow> (WebSocket \<times> bool) option" where
  "handleFragment e d len remainingBytes opCode fin s =
     (if opCode < 3 then
        (if remainingBytes = 0 \<and> fin \<and> length (fragmentBuffer s) = 0
         then Some (handleDataDirect e d len opCode s)
         else Some (handleDataBuffered e d len remainingBytes opCode fin s))
      else
        (if remainingBytes = 0 \<and> fin \<and> controlTipLength s = 0
         then Some (handleControlDirect e d len opCode s)
         else handleControlBuffered e d len remainingBytes opCode fin s))"

section \<open>base64 (lines 291-303)\<close>





section \<open>SHA-1\<close>












section \<open>upgrade (lines 305-355)\<close>








section \<open>Observations and example environments\<close>

text \<open>The buffers handed to the socket's write so far, oldest first.\<close>

definition framesWritten :: "WebSocket \<Rightarrow> byte list list" where
  "framesWritten s = concat (map (\<lambda>ev. case ev of WriteCalled f \<Rightarrow> [f] | _ \<Rightarrow> []) (trace s))"

text \<open>The callbacks of the queued messages that carry one, front first.\<close>

definition pendingCallbacks :: "Message list \<Rightarrow> callback list" where
  "pendingCallbacks q = concat (map (\<lambda>m. case msg_callback m of Some cb \<Rightarrow> [cb] | None \<Rightarrow> []) q)"

text \<open>A connection fresh from the upgrade, with compression negotiated and a sliding
  window of its own.\<close>

definition openConnection :: WebSocket where
  "openConnection =
     \<lparr>fragmentBuffer = [], controlTipLength = 0, compressionStatus = ENABLED,
      slidingDeflateWindow = Some 1, hasOutstandingPong = True, shuttingDown = False,
      closed = False, messageQueue = [], trace = []\<rparr>"

text \<open>A server built without \<^verbatim>\<open>UWS_THREADSAFE\<close> whose handlers do nothing and whose socket
  takes every buffer at once. The codec stand-ins: \<^verbatim>\<open>inflate\<close> and \<^verbatim>\<open>deflate\<close> copy
  the payload (inflate refuses more than \<open>maxPayload\<close> bytes), \<^verbatim>\<open>isValidUtf8\<close> accepts
  ASCII, the close payload is a big-endian code followed by the reason.\<close>

definition bareEnv :: env where
  "bareEnv =
     \<lparr>UWS_THREADSAFE = False, isServer = True, defaultCompress = True, maxPayload = 1024,
      messageHandler = (\<lambda>d len opCode s. s),
      pingHandler = (\<lambda>d len s. s),
      pongHandler = (\<lambda>d len s. s),
      disconnectionHandler = (\<lambda>code s. s),
      hub_inflate = (\<lambda>d len cap. if len \<le> cap then Some (take len d, len) else None),
      hub_deflate = (\<lambda>d len w. (take len d, len)),
      isValidUtf8 = (\<lambda>d len. list_all (\<lambda>b. b < 0x80) (take len d)),
      parseClosePayload = (\<lambda>d len.
         if len < 2 then \<lparr>cf_code = 1005, cf_message = [], cf_length = 0\<rparr>
         else \<lparr>cf_code = uint (d ! 0) * 256 + uint (d ! 1), cf_message = drop 2 d,
               cf_length = len - 2\<rparr>),
      formatClosePayload = (\<lambda>code m len.
         if code = 0 then []
         else [word_of_int (code div 256 mod 256), word_of_int (code mod 256)] @ take len m),
      consume = (\<lambda>d len s. s),
      forceClose = (\<lambda>s. s),
      maskKey = [0x11, 0x22, 0x33, 0x44],
      socketWrite = (\<lambda>s d. WriteDrained)\<rparr>"

text \<open>The same server with \<^verbatim>\<open>forceClose\<close> bound to \<^verbatim>\<open>terminate\<close>.\<close>

definition serverEnv :: env where
  "serverEnv = bareEnv\<lparr>forceClose := terminate bareEnv\<rparr>"

text \<open>The server built with \<^verbatim>\<open>UWS_THREADSAFE\<close>.\<close>

definition threadsafeEnv :: env where
  "threadsafeEnv = serverEnv\<lparr>UWS_THREADSAFE := True\<rparr>"

text \<open>An application that answers every message and every ping by closing the
  connection with code 1000.\<close>

definition closingEnv :: env where
  "closingEnv =
     serverEnv\<lparr>messageHandler := (\<lambda>d len opCode s. close serverEnv 1000 [] 0 s),
               pingHandler := (\<lambda>d len s. close serverEnv 1000 [] 0 s)\<rparr>"

text \<open>A connection on which \<^verbatim>\<open>close(1000, "bye", 3)\<close> has returned.\<close>

definition closedConnection :: WebSocket where
  "closedConnection = close serverEnv 1000 (bytes_of ''bye'') 3 openConnection"

text \<open>A connection with three messages waiting in its queue.\<close>

definition busyConnection :: WebSocket where
  "busyConnection =
     openConnection
       \<lparr>messageQueue :=
          [\<lparr>msg_data = bytes_of ''a'', msg_callback = Some (UserCallback 1)\<rparr>,
           \<lparr>msg_data = bytes_of ''b'', msg_callback = None\<rparr>,
           \<lparr>msg_data = bytes_of ''c'', msg_callback = Some CloseCallback\<rparr>]\<rparr>"

text \<open>An application that echoes every message, uncompressed.\<close>

definition echoEnv :: env where
  "echoEnv =
     serverEnv\<lparr>messageHandler := (\<lambda>d len opCode s. send serverEnv d len opCode None False s)\<rparr>"

text \<open>The echoing application over a codec that looks at the four bytes behind the bytes
  it is counted and takes the message only when they are the deflate sync tail
  \<^verbatim>\<open>00 00 FF FF\<close>; the message is then the counted bytes.\<close>

definition tailEnv :: env where
  "tailEnv =
     echoEnv\<lparr>hub_inflate := (\<lambda>d len cap.
        if take 4 (drop len d) = [0x00, 0x00, 0xFF, 0xFF] \<and> len \<le> cap
        then Some (take len d, len) else None)\<rparr>"

text \<open>A connection that holds the first fragment \<^verbatim>\<open>"AB"\<close> of a compressed message.\<close>

definition compressedFragments :: WebSocket where
  "compressedFragments =
     openConnection\<lparr>fragmentBuffer := bytes_of ''AB'', compressionStatus := COMPRESSED_FRAME\<rparr>"

text \<open>A connection that holds the first fragment \<^verbatim>\<open>"AB"\<close> of a message.\<close>

definition fragmentedConnection :: WebSocket where
  "fragmentedConnection = openConnection\<lparr>fragmentBuffer := bytes_of ''AB''\<rparr>"


text \<open>Modelled from the spec: \<^verbatim>\<open>consume\<close> calls \<open>handleFragment\<close> for every frame or
  slice of a frame, in order, and stops as soon as a call returns true. The driver takes
  the slices already parsed: payload, count, remaining bytes, opcode, fin.\<close>

fun feedFragments ::
  "env \<Rightarrow> (byte list \<times> nat \<times> nat \<times> int \<times> bool) list \<Rightarrow> WebSocket \<Rightarrow> (WebSocket \<times> bool) option" where
  "feedFragments e [] s = Some (s, False)"
| "feedFragments e ((d, len, remainingBytes, opCode, fin) # rest) s =
     (case handleFragment e d len remainingBytes opCode fin s of
        None \<Rightarrow> None
      | Some (s', stop) \<Rightarrow> if stop then Some (s', True) else feedFragments e rest s')"

text \<open>The recursive equations are unfolded by hand, never by the simplifier.\<close>

declare drainMessageQueue.simps [simp del]

section \<open>Frame conditions of the socket layer\<close>

lemma logEvent_fields [simp]:
  "fragmentBuffer (logEvent ev s) = fragmentBuffer s"
  "controlTipLength (logEvent ev s) = controlTipLength s"
  "compressionStatus (logEvent ev s) = compressionStatus s"
  "slidingDeflateWindow (logEvent ev s) = slidingDeflateWindow s"
  "hasOutstandingPong (logEvent ev s) = hasOutstandingPong s"
  "shuttingDown (logEvent ev s) = shuttingDown s"
  "closed (logEvent ev s) = closed s"
  "messageQueue (logEvent ev s) = messageQueue s"
  "trace (logEvent ev s) = trace s @ [ev]"
  by (simp_all add: logEvent_def)

lemma invokeCallback_cancelled:
  "invokeCallback cb conn True s = logEvent (CallbackInvoked cb conn True) s"
  by (cases cb) (simp_all add: invokeCallback_def)

lemma invokeCallback_fields [simp]:
  "fragmentBuffer (invokeCallback cb conn c s) = fragmentBuffer s"
  "controlTipLength (invokeCallback cb conn c s) = controlTipLength s"
  "compressionStatus (invokeCallback cb conn c s) = compressionStatus s"
  "slidingDeflateWindow (invokeCallback cb conn c s) = slidingDeflateWindow s"
  "hasOutstandingPong (invokeCallback cb conn c s) = hasOutstandingPong s"
  "shuttingDown (invokeCallback cb conn c s) = shuttingDown s"
  "closed (invokeCallback cb conn c s) = closed s"
  "messageQueue (invokeCallback cb conn c s) = messageQueue s"
  by (cases cb; simp add: invokeCallback_def shutdown_def Let_def)+

lemma invokeIfSet_fields [simp]:
  "fragmentBuffer (invokeIfSet cbo conn c s) = fragmentBuffer s"
  "controlTipLength (invokeIfSet cbo conn c s) = controlTipLength s"
  "compressionStatus (invokeIfSet cbo conn c s) = compressionStatus s"
  "slidingDeflateWindow (invokeIfSet cbo conn c s) = slidingDeflateWindow s"
  "hasOutstandingPong (invokeIfSet cbo conn c s) = hasOutstandingPong s"
  "shuttingDown (invokeIfSet cbo conn c s) = shuttingDown s"
  "closed (invokeIfSet cbo conn c s) = closed s"
  "messageQueue (invokeIfSet cbo conn c s) = messageQueue s"
  by (cases cbo; simp add: invokeIfSet_def)+

lemma framesWritten_logEvent:
  "framesWritten (logEvent ev s) =
     framesWritten s @ (case ev of WriteCalled f \<Rightarrow> [f] | _ \<Rightarrow> [])"
  by (simp add: framesWritten_def)

lemma framesWritten_invokeCallback [simp]:
  "framesWritten (invokeCallback cb conn c s) = framesWritten s"
  by (cases cb) (simp_all add: invokeCallback_def shutdown_def framesWritten_logEvent Let_def)

lemma framesWritten_invokeIfSet [simp]:
  "framesWritten (invokeIfSet cbo conn c s) = framesWritten s"
  by (cases cbo) (simp_all add: invokeIfSet_def)

lemma drainMessageQueue_queue: "messageQueue (drainMessageQueue s) = []"
proof (induction s rule: drainMessageQueue.induct)
  case (1 s)
  show ?case
  proof (cases "messageQueue s = []")
    case True
    then show ?thesis by (subst drainMessageQueue.simps) simp
  next
    case False
    with "1" show ?thesis by (subst drainMessageQueue.simps) (simp add: Let_def)
  qed
qed

lemma drainMessageQueue_step:
  "messageQueue s = m # q \<Longrightarrow>
   drainMessageQueue s =
     drainMessageQueue ((invokeIfSet (msg_callback m) False True s)\<lparr>messageQueue := q\<rparr>)"
  by (subst drainMessageQueue.simps) (simp add: Let_def)

lemma drainMessageQueue_trace:
  "trace (drainMessageQueue s) =
     trace s @ map (\<lambda>cb. CallbackInvoked cb False True) (pendingCallbacks (messageQueue s))"
proof (induction s rule: drainMessageQueue.induct)
  case (1 s)
  show ?case
  proof (cases "messageQueue s")
    case Nil
    then show ?thesis
      by (subst drainMessageQueue.simps) (simp add: pendingCallbacks_def)
  next
    case (Cons m q)
    define s1 where "s1 = invokeIfSet (msg_callback m) False True s"
    have ne: "messageQueue s \<noteq> []"
      using Cons by simp
    have tl: "tl (messageQueue s1) = q" and hd: "hd (messageQueue s) = m"
      using Cons by (simp_all add: s1_def)
    have ih: "trace (drainMessageQueue (s1\<lparr>messageQueue := q\<rparr>)) =
        trace s1 @ map (\<lambda>cb. CallbackInvoked cb False True) (pendingCallbacks q)"
      using "1.IH" [OF ne refl refl] unfolding hd s1_def [symmetric] tl by simp
    have head: "trace s1 =
        trace s @ map (\<lambda>cb. CallbackInvoked cb False True) (pendingCallbacks [m])"
      by (cases "msg_callback m")
         (simp_all add: s1_def invokeIfSet_def invokeCallback_cancelled pendingCallbacks_def)
    have "trace (drainMessageQueue s) = trace (drainMessageQueue (s1\<lparr>messageQueue := q\<rparr>))"
      by (simp only: drainMessageQueue_step [OF Cons] s1_def)
    also have "\<dots> = trace s @ map (\<lambda>cb. CallbackInvoked cb False True) (pendingCallbacks (m # q))"
      by (simp add: ih head pendingCallbacks_def)
    finally show ?thesis by (simp only: Cons)
  qed
qed

lemma drainMessageQueue_preserves:
  assumes cb: "\<And>cbo t. f (invokeIfSet cbo False True t) = f t"
    and upd: "\<And>q t. f (t\<lparr>messageQueue := q\<rparr>) = f t"
  shows "f (drainMessageQueue s) = f s"
proof (induction s rule: drainMessageQueue.induct)
  case (1 s)
  show ?case
  proof (cases "messageQueue s")
    case Nil
    then show ?thesis by (subst drainMessageQueue.simps) simp
  next
    case (Cons m q)
    define s1 where "s1 = invokeIfSet (msg_callback m) False True s"
    have "f (drainMessageQueue s) = f (drainMessageQueue (s1\<lparr>messageQueue := q\<rparr>))"
      by (simp only: drainMessageQueue_step [OF Cons] s1_def)
    also have "\<dots> = f (s1\<lparr>messageQueue := q\<rparr>)"
    proof -
      have ne: "messageQueue s \<noteq> []"
        using Cons by simp
      have tl: "tl (messageQueue s1) = q" and hd: "hd (messageQueue s) = m"
        using Cons by (simp_all add: s1_def)
      show ?thesis
        using "1.IH" [OF ne refl refl] unfolding hd s1_def [symmetric] tl .
    qed
    also have "\<dots> = f s"
      by (simp add: upd cb s1_def)
    finally show ?thesis .
  qed
qed

lemma drainMessageQueue_fields [simp]:
  "fragmentBuffer (drainMessageQueue s) = fragmentBuffer s"
  "controlTipLength (drainMessageQueue s) = controlTipLength s"
  "compressionStatus (drainMessageQueue s) = compressionStatus s"
  "slidingDeflateWindow (drainMessageQueue s) = slidingDeflateWindow s"
  "hasOutstandingPong (drainMessageQueue s) = hasOutstandingPong s"
  "shuttingDown (drainMessageQueue s) = shuttingDown s"
  "closed (drainMessageQueue s) = closed s"
  by (rule drainMessageQueue_preserves; simp)+

section \<open>send\<close>

lemma write_msg_fields:
  "write_msg e m s = (ok, waiting, s1) \<Longrightarrow>
     fragmentBuffer s1 = fragmentBuffer s \<and> controlTipLength s1 = controlTipLength s \<and>
     compressionStatus s1 = compressionStatus s \<and>
     slidingDeflateWindow s1 = slidingDeflateWindow s \<and>
     hasOutstandingPong s1 = hasOutstandingPong s \<and> shuttingDown s1 = shuttingDown s \<and>
     closed s1 = closed s \<and> framesWritten s1 = framesWritten s @ [msg_data m]"
  by (auto simp: write_msg_def Let_def framesWritten_logEvent framesWritten_def
      split: writeOutcome.splits)

lemma sendTransformed_fields:
  "fragmentBuffer (sendTransformed e m len cb td s) = fragmentBuffer s"
  "controlTipLength (sendTransformed e m len cb td s) = controlTipLength s"
  "compressionStatus (sendTransformed e m len cb td s) = compressionStatus s"
  "slidingDeflateWindow (sendTransformed e m len cb td s) = slidingDeflateWindow s"
  "hasOutstandingPong (sendTransformed e m len cb td s) = hasOutstandingPong s"
  "shuttingDown (sendTransformed e m len cb td s) = shuttingDown s"
  "closed (sendTransformed e m len cb td s) = closed s"
  "framesWritten (sendTransformed e m len cb td s) = framesWritten s @ [transform e s m len td]"
  by (cases "write_msg e \<lparr>msg_data = transform e s m len td, msg_callback = cb\<rparr> s";
      simp add: sendTransformed_def Let_def; drule write_msg_fields; simp)+

lemma send_fields [simp]:
  "fragmentBuffer (send e m len opCode cb compress s) = fragmentBuffer s"
  "controlTipLength (send e m len opCode cb compress s) = controlTipLength s"
  "compressionStatus (send e m len opCode cb compress s) = compressionStatus s"
  "slidingDeflateWindow (send e m len opCode cb compress s) = slidingDeflateWindow s"
  "hasOutstandingPong (send e m len opCode cb compress s) = hasOutstandingPong s"
  "shuttingDown (send e m len opCode cb compress s) = shuttingDown s"
  "closed (send e m len opCode cb compress s) = closed s"
  by (simp_all add: send_def Let_def sendTransformed_fields)

section \<open>onEnd\<close>

lemma onEnd_closed: "closed (onEnd e code s)"
  by (simp add: onEnd_def Let_def clearPendingPollChanges_def closeSocket_def
      split: option.splits)

lemma onEnd_queue: "messageQueue (onEnd e code s) = []"
  by (simp add: onEnd_def Let_def clearPendingPollChanges_def drainMessageQueue_queue
      split: option.splits)

lemma onEnd_window: "slidingDeflateWindow (onEnd e code s) = None"
  by (simp add: onEnd_def Let_def split: option.splits)

lemma onEnd_trace:
  "trace (onEnd e code s) =
     trace (closeSocket (disconnectionHandler e code (removeWebSocket s)))
       @ map (\<lambda>cb. CallbackInvoked cb False True)
           (pendingCallbacks
              (messageQueue (closeSocket (disconnectionHandler e code (removeWebSocket s)))))
       @ [ClearPendingPollChanges]
       @ (case slidingDeflateWindow (disconnectionHandler e code (removeWebSocket s)) of
            Some w \<Rightarrow> [DeflateEnd w, DeleteZStream w]
          | None \<Rightarrow> [])"
  by (simp add: onEnd_def Let_def clearPendingPollChanges_def drainMessageQueue_trace
      closeSocket_def split: option.splits)

lemma close_unfold:
  "close e code message len s =
     onEnd e code
       (send e (formatClosePayload e code message (min 123 len))
          (length (formatClosePayload e code message (min 123 len))) CLOSE
          (Some CloseCallback) (defaultCompress e) (s\<lparr>shuttingDown := True\<rparr>))"
  by (simp add: close_def Let_def MAX_CLOSE_PAYLOAD_def setShuttingDown_def)

lemma close_closed: "closed (close e code message len s)"
  by (simp add: close_unfold onEnd_closed)

lemma close_queue: "messageQueue (close e code message len s) = []"
  by (simp add: close_unfold onEnd_queue)



section \<open>send on a closed connection\<close>

lemma closedConnection_fields:
  "closed closedConnection" "messageQueue closedConnection = []"
  by (simp_all add: closedConnection_def close_closed close_queue)


lemma threadsafeEnv_fields:
  "UWS_THREADSAFE threadsafeEnv = True"
  by (simp add: threadsafeEnv_def)




section \<open>Inbound data while the close handshake is under way\<close>

text \<open>
  C10. When \<open>shuttingDown\<close> is set, \<open>onData\<close> feeds nothing to the frame parser
  (\<open>consume\<close> is not called, so no handler runs) and corks nothing: the connection it
  returns is the one it was given with \<open>hasOutstandingPong\<close> cleared, whatever parser and
  handlers the environment holds.
\<close>

theorem onData_shuttingDown:
  assumes "shuttingDown s"
  shows "onData e d len s = s\<lparr>hasOutstandingPong := False\<rparr>"
  using assms by (simp add: onData_def isShuttingDown_def)

theorem onData_shuttingDown_witness:
  "shuttingDown closedConnection \<and>
   onData closingEnv (bytes_of ''ping'') 4 closedConnection =
     closedConnection\<lparr>hasOutstandingPong := False\<rparr>"
proof -
  have sd: "shuttingDown closedConnection"
    by (simp add: closedConnection_def close_unfold onEnd_def Let_def
        clearPendingPollChanges_def closeSocket_def removeWebSocket_def serverEnv_def
        bareEnv_def split: option.splits)
  show ?thesis
    using onData_shuttingDown [OF sd, of closingEnv "bytes_of ''ping''" 4] sd by simp
qed

section \<open>The frame that send emits\<close>

lemma send_frames:
  "framesWritten (send e message len opCode callback compress s) =
     framesWritten s @
       (if UWS_THREADSAFE e \<and> closed s then []
        else [transform e s message len
                \<lparr>td_opCode = opCode,
                 td_compress = (compress \<and> compressionStatus s = ENABLED \<and> opCode < 3)\<rparr>])"
  by (simp add: send_def isClosed_def Let_def sendTransformed_fields)

lemma formatMessage_first:
  "hd (formatMessage e src len opCode reported compressed) =
     0x80 OR (if compressed \<and> opCode < 3 then 0x40 else 0) OR word_of_int opCode"
  by (simp add: formatMessage_def Let_def)

lemma opCode_cases:
  assumes "opCode \<in> {0, TEXT, BINARY, CLOSE, PING, PONG}"
  obtains "opCode = 0" | "opCode = 1" | "opCode = 2" | "opCode = 8" | "opCode = 9" | "opCode = 10"
  using assms by (auto simp: TEXT_def BINARY_def CLOSE_def PING_def PONG_def)

lemma formatMessage_rsv1:
  assumes "opCode \<in> {0, TEXT, BINARY, CLOSE, PING, PONG}"
  shows "bit (hd (formatMessage e src len opCode reported compressed)) 6
           \<longleftrightarrow> compressed \<and> opCode < 3"
  using assms by (rule opCode_cases) (simp_all add: formatMessage_first)

lemma openConnection_fields:
  "closed openConnection = False" "compressionStatus openConnection = ENABLED"
  "slidingDeflateWindow openConnection = Some 1" "trace openConnection = []"
  "messageQueue openConnection = []" "fragmentBuffer openConnection = []"
  "controlTipLength openConnection = 0" "shuttingDown openConnection = False"
  by (simp_all add: openConnection_def)

lemma serverEnv_fields:
  "UWS_THREADSAFE serverEnv = False" "isServer serverEnv = True"
  "defaultCompress serverEnv = True" "maxPayload serverEnv = 1024"
  "messageHandler serverEnv = (\<lambda>d len opCode s. s)"
  "pingHandler serverEnv = (\<lambda>d len s. s)"
  "pongHandler serverEnv = (\<lambda>d len s. s)"
  "disconnectionHandler serverEnv = (\<lambda>code s. s)"
  "hub_inflate serverEnv = (\<lambda>d len cap. if len \<le> cap then Some (take len d, len) else None)"
  "hub_deflate serverEnv = (\<lambda>d len w. (take len d, len))"
  "isValidUtf8 serverEnv = (\<lambda>d len. list_all (\<lambda>b. b < 0x80) (take len d))"
  "formatClosePayload serverEnv = (\<lambda>code m len.
     if code = 0 then []
     else [word_of_int (code div 256 mod 256), word_of_int (code mod 256)] @ take len m)"
  "socketWrite serverEnv = (\<lambda>s d. WriteDrained)"
  "forceClose serverEnv = terminate bareEnv"
  by (simp_all add: serverEnv_def bareEnv_def)

lemma closedConnection_status:
  "compressionStatus closedConnection = ENABLED"
  by (simp add: closedConnection_def close_unfold onEnd_def Let_def
      clearPendingPollChanges_def closeSocket_def removeWebSocket_def serverEnv_fields
      openConnection_fields split: option.splits)

text \<open>
  C3 (as amended). \<open>send\<close> emits at most one frame, and none exactly when the build has
  \<^verbatim>\<open>UWS_THREADSAFE\<close> and the connection is closed (the return of line 35: nothing is
  deflated, nothing is formatted). The frame of every other call is formatted over the
  payload that \<^verbatim>\<open>deflate\<close> returns, with the compressed flag, exactly when \<open>compress\<close> is
  set, \<open>compressionStatus\<close> is \<open>ENABLED\<close> and the opcode is below 3; otherwise it is
  formatted over the original payload without the flag. The RSV1 bit (bit 6 of the first
  byte) of the frame is set in the first case and clear in the second.
\<close>

theorem send_compression:
  assumes "opCode \<in> {0, TEXT, BINARY, CLOSE, PING, PONG}"
  shows "let frame =
               (if compress \<and> compressionStatus s = ENABLED \<and> opCode < 3 then
                  (case hub_deflate e message len (slidingDeflateWindow s) of
                     (deflated, len') \<Rightarrow> formatMessage e deflated len' opCode len' True)
                else formatMessage e message len opCode len False)
         in framesWritten (send e message len opCode callback compress s)
              = framesWritten s @ (if UWS_THREADSAFE e \<and> closed s then [] else [frame]) \<and>
            (bit (hd frame) 6 \<longleftrightarrow> compress \<and> compressionStatus s = ENABLED \<and> opCode < 3)"
proof (cases "compress \<and> compressionStatus s = ENABLED \<and> opCode < 3")
  case True
  obtain deflated len' where d: "hub_deflate e message len (slidingDeflateWindow s) = (deflated, len')"
    by (cases "hub_deflate e message len (slidingDeflateWindow s)")
  have "bit (hd (formatMessage e deflated len' opCode len' True)) 6"
    using formatMessage_rsv1 [OF assms] True by simp
  then show ?thesis
    using True d by (simp add: send_frames transform_def)
next
  case False
  have "\<not> bit (hd (formatMessage e message len opCode len False)) 6"
    using formatMessage_rsv1 [OF assms] by simp
  then show ?thesis
    using False by (auto simp: send_frames transform_def Let_def)
qed

theorem send_compression_witness:
  "TEXT \<in> {0, TEXT, BINARY, CLOSE, PING, PONG} \<and>
   framesWritten (send serverEnv (bytes_of ''AAAA'') 4 TEXT None True openConnection)
     = [[0xC1, 0x04, 0x41, 0x41, 0x41, 0x41]] \<and>
   framesWritten (send serverEnv (bytes_of ''AAAA'') 4 TEXT None False openConnection)
     = [[0x81, 0x04, 0x41, 0x41, 0x41, 0x41]] \<and>
   framesWritten (send threadsafeEnv (bytes_of ''AAAA'') 4 TEXT None True closedConnection)
     = framesWritten closedConnection"
proof -
  have b: "TEXT \<in> {0, TEXT, BINARY, CLOSE, PING, PONG}"
    by simp
  have fw: "framesWritten openConnection = []"
    by (simp add: framesWritten_def openConnection_fields)
  have flagged: "framesWritten (send serverEnv (bytes_of ''AAAA'') 4 TEXT None True openConnection)
     = [[0xC1, 0x04, 0x41, 0x41, 0x41, 0x41]]"
    using send_compression [OF b, where e = serverEnv and s = openConnection
          and message = "bytes_of ''AAAA''" and len = 4 and callback = None and compress = True]
    by (simp add: Let_def fw openConnection_fields serverEnv_fields formatMessage_def
        lengthField_def bytes_of_def byte_of_def TEXT_def)
  have plain: "framesWritten (send serverEnv (bytes_of ''AAAA'') 4 TEXT None False openConnection)
     = [[0x81, 0x04, 0x41, 0x41, 0x41, 0x41]]"
    using send_compression [OF b, where e = serverEnv and s = openConnection
          and message = "bytes_of ''AAAA''" and len = 4 and callback = None and compress = False]
    by (simp add: Let_def fw openConnection_fields serverEnv_fields formatMessage_def
        lengthField_def bytes_of_def byte_of_def TEXT_def)
  have none: "framesWritten (send threadsafeEnv (bytes_of ''AAAA'') 4 TEXT None True closedConnection)
     = framesWritten closedConnection"
    using send_compression [OF b, where e = threadsafeEnv and s = closedConnection
          and message = "bytes_of ''AAAA''" and len = 4 and callback = None and compress = True]
    by (simp add: Let_def threadsafeEnv_fields closedConnection_fields)
  show ?thesis
    using b flagged plain none by simp
qed

text \<open>
  The claim as stated, for every call, fails in a \<^verbatim>\<open>UWS_THREADSAFE\<close> build on a closed
  connection: \<open>compress\<close> is set, \<open>compressionStatus\<close> is \<open>ENABLED\<close> and the opcode is
  TEXT, yet \<open>send\<close> returns at line 35 with the connection as it was: no payload is
  deflated and no frame is emitted, with or without RSV1.
\<close>

theorem send_compression_counterexample:
  "UWS_THREADSAFE threadsafeEnv \<and> closed closedConnection \<and>
   compressionStatus closedConnection = ENABLED \<and> TEXT < 3 \<and>
   send threadsafeEnv (bytes_of ''AAAA'') 4 TEXT None True closedConnection = closedConnection \<and>
   framesWritten (send threadsafeEnv (bytes_of ''AAAA'') 4 TEXT None True closedConnection)
     = framesWritten closedConnection"
proof -
  have run: "send threadsafeEnv (bytes_of ''AAAA'') 4 TEXT None True closedConnection =
      closedConnection"
    by (simp add: send_def isClosed_def threadsafeEnv_fields closedConnection_fields
        invokeIfSet_def)
  show ?thesis
    unfolding run
    by (simp add: threadsafeEnv_fields closedConnection_fields closedConnection_status TEXT_def)
qed

section \<open>onEnd and close\<close>

text \<open>
  C6. After \<open>onEnd\<close> the message queue is empty and the sliding deflate window is null.
  What \<open>onEnd\<close> adds to the trace once the socket is closed is exactly: one call
  \<^verbatim>\<open>callback(nullptr, data, true, nullptr)\<close> for every queued message that carries a
  callback, in queue order; \<^verbatim>\<open>clearPendingPollChanges\<close>; and, when the connection has a
  sliding window, \<^verbatim>\<open>deflateEnd\<close> and \<^verbatim>\<open>delete\<close> for it.
\<close>

theorem onEnd_drains_queue:
  "let s3 = closeSocket (disconnectionHandler e code (removeWebSocket s))
   in messageQueue (onEnd e code s) = [] \<and>
      slidingDeflateWindow (onEnd e code s) = None \<and>
      trace (onEnd e code s) =
        trace s3
          @ map (\<lambda>cb. CallbackInvoked cb False True) (pendingCallbacks (messageQueue s3))
          @ [ClearPendingPollChanges]
          @ (case slidingDeflateWindow s3 of
               Some w \<Rightarrow> [DeflateEnd w, DeleteZStream w]
             | None \<Rightarrow> [])"
  by (simp add: Let_def onEnd_queue onEnd_window onEnd_trace closeSocket_def)

theorem onEnd_drains_queue_witness:
  "messageQueue (onEnd serverEnv 1000 busyConnection) = [] \<and>
   slidingDeflateWindow (onEnd serverEnv 1000 busyConnection) = None \<and>
   trace (onEnd serverEnv 1000 busyConnection) =
     [RemoveWebSocket, CloseSocket,
      CallbackInvoked (UserCallback 1) False True,
      CallbackInvoked CloseCallback False True,
      ClearPendingPollChanges, DeflateEnd 1, DeleteZStream 1]"
  using onEnd_drains_queue [of serverEnv 1000 busyConnection]
  by (simp add: Let_def serverEnv_fields closeSocket_def removeWebSocket_def
      busyConnection_def openConnection_def pendingCallbacks_def)

lemma framesWritten_shuttingDown:
  "framesWritten (s\<lparr>shuttingDown := b\<rparr>) = framesWritten s"
  by (simp add: framesWritten_def)

text \<open>
  C5. \<open>close\<close> clamps the length to 123, sets \<open>shuttingDown\<close>, sends a CLOSE frame over the
  formatted close payload with the callback of lines 147-151 (which calls \<^verbatim>\<open>shutdown\<close>
  exactly when it is not cancelled), and then runs \<open>onEnd\<close> with the code, at once. \<open>onEnd\<close>
  removes the connection from its group, calls the disconnection handler with that code,
  closes the socket, cancels the queued messages and releases the sliding window, in
  that order; afterwards the connection is closed, its queue is empty and it has no
  window.
\<close>

theorem close_sequence:
  "let payload = formatClosePayload e code message (min 123 len);
       s1 = s\<lparr>shuttingDown := True\<rparr>;
       s2 = send e payload (length payload) CLOSE (Some CloseCallback) (defaultCompress e) s1;
       s3 = disconnectionHandler e code (logEvent RemoveWebSocket s2);
       s4 = logEvent CloseSocket (s3\<lparr>closed := True\<rparr>)
   in close e code message len s = onEnd e code s2 \<and>
      framesWritten s2 =
        framesWritten s @
          (if UWS_THREADSAFE e \<and> closed s then []
           else [formatMessage e payload (length payload) CLOSE (length payload) False]) \<and>
      invokeCallback CloseCallback conn False t =
        logEvent Shutdown (logEvent (CallbackInvoked CloseCallback conn False) t) \<and>
      invokeCallback CloseCallback conn True t =
        logEvent (CallbackInvoked CloseCallback conn True) t \<and>
      trace (close e code message len s) =
        trace s4
          @ map (\<lambda>cb. CallbackInvoked cb False True) (pendingCallbacks (messageQueue s4))
          @ [ClearPendingPollChanges]
          @ (case slidingDeflateWindow s4 of
               Some w \<Rightarrow> [DeflateEnd w, DeleteZStream w]
             | None \<Rightarrow> []) \<and>
      closed (close e code message len s) \<and>
      messageQueue (close e code message len s) = [] \<and>
      slidingDeflateWindow (close e code message len s) = None"
proof -
  define payload where "payload = formatClosePayload e code message (min 123 len)"
  define s2 where
    "s2 = send e payload (length payload) CLOSE (Some CloseCallback) (defaultCompress e)
            (s\<lparr>shuttingDown := True\<rparr>)"
  have unfold: "close e code message len s = onEnd e code s2"
    by (simp add: close_unfold s2_def payload_def)
  have frames: "framesWritten s2 =
      framesWritten s @
        (if UWS_THREADSAFE e \<and> closed s then []
         else [formatMessage e payload (length payload) CLOSE (length payload) False])"
    by (simp add: s2_def send_frames transform_def CLOSE_def framesWritten_shuttingDown)
  have cb: "invokeCallback CloseCallback conn False t =
      logEvent Shutdown (logEvent (CallbackInvoked CloseCallback conn False) t)"
    by (simp add: invokeCallback_def shutdown_def Let_def)
  have tr: "trace (onEnd e code s2) =
      trace (logEvent CloseSocket ((disconnectionHandler e code (logEvent RemoveWebSocket s2))
               \<lparr>closed := True\<rparr>))
        @ map (\<lambda>cb. CallbackInvoked cb False True)
            (pendingCallbacks (messageQueue
               (logEvent CloseSocket ((disconnectionHandler e code (logEvent RemoveWebSocket s2))
                  \<lparr>closed := True\<rparr>))))
        @ [ClearPendingPollChanges]
        @ (case slidingDeflateWindow
                  (logEvent CloseSocket ((disconnectionHandler e code (logEvent RemoveWebSocket s2))
                     \<lparr>closed := True\<rparr>)) of
             Some w \<Rightarrow> [DeflateEnd w, DeleteZStream w]
           | None \<Rightarrow> [])"
    by (simp add: onEnd_trace closeSocket_def removeWebSocket_def)
  show ?thesis
    unfolding Let_def payload_def [symmetric] s2_def [symmetric]
    using unfold frames cb tr
    by (simp add: invokeCallback_cancelled onEnd_closed onEnd_queue onEnd_window)
qed

theorem close_sequence_witness:
  "trace (close serverEnv 1000 (bytes_of ''bye'') 3 openConnection) =
     [WriteCalled [0x88, 0x05, 0x03, 0xE8, 0x62, 0x79, 0x65],
      CallbackInvoked CloseCallback True False, Shutdown,
      RemoveWebSocket, CloseSocket, ClearPendingPollChanges,
      DeflateEnd 1, DeleteZStream 1] \<and>
   closed (close serverEnv 1000 (bytes_of ''bye'') 3 openConnection) \<and>
   messageQueue (close serverEnv 1000 (bytes_of ''bye'') 3 openConnection) = []"
  using close_sequence [of serverEnv 1000 "bytes_of ''bye''" 3 openConnection,
      unfolded Let_def, THEN conjunct2]
  by (simp add: Let_def serverEnv_fields bytes_of_def byte_of_def pendingCallbacks_def
      openConnection_def logEvent_def send_def sendTransformed_def write_msg_def
      transform_def formatMessage_def lengthField_def invokeIfSet_def invokeCallback_def
      shutdown_def isClosed_def CLOSE_def)

section \<open>The fragment buffer is private to handleFragment\<close>

lemma onEnd_buffer:
  assumes "\<And>t. fragmentBuffer (disconnectionHandler e code t) = fragmentBuffer t"
    and "\<And>t. controlTipLength (disconnectionHandler e code t) = controlTipLength t"
  shows "fragmentBuffer (onEnd e code s) = fragmentBuffer s"
    and "controlTipLength (onEnd e code s) = controlTipLength s"
  using assms
  by (simp_all add: onEnd_def Let_def clearPendingPollChanges_def closeSocket_def
      removeWebSocket_def split: option.splits)

lemma close_buffer:
  assumes "\<And>t. fragmentBuffer (disconnectionHandler e code t) = fragmentBuffer t"
    and "\<And>t. controlTipLength (disconnectionHandler e code t) = controlTipLength t"
  shows "fragmentBuffer (close e code message len s) = fragmentBuffer s"
    and "controlTipLength (close e code message len s) = controlTipLength s"
  using assms by (simp_all add: close_unfold onEnd_buffer)

lemma terminate_buffer:
  assumes "\<And>t. fragmentBuffer (disconnectionHandler e 1006 t) = fragmentBuffer t"
    and "\<And>t. controlTipLength (disconnectionHandler e 1006 t) = controlTipLength t"
  shows "fragmentBuffer (terminate e s) = fragmentBuffer s"
    and "controlTipLength (terminate e s) = controlTipLength s"
  using assms by (simp_all add: terminate_def onEnd_buffer)

lemma bareEnv_fields:
  "UWS_THREADSAFE bareEnv = False"
  "disconnectionHandler bareEnv = (\<lambda>code s. s)"
  by (simp_all add: bareEnv_def)

lemma echoEnv_fields:
  "maxPayload echoEnv = 1024"
  "messageHandler echoEnv = (\<lambda>d len opCode s. send serverEnv d len opCode None False s)"
  "hub_inflate echoEnv = (\<lambda>d len cap. if len \<le> cap then Some (take len d, len) else None)"
  "isValidUtf8 echoEnv = (\<lambda>d len. list_all (\<lambda>b. b < 0x80) (take len d))"
  "forceClose echoEnv = terminate bareEnv"
  by (simp_all add: echoEnv_def serverEnv_def bareEnv_def)

lemma closingEnv_fields:
  "maxPayload closingEnv = 1024"
  "defaultCompress closingEnv = True"
  "UWS_THREADSAFE closingEnv = False"
  "messageHandler closingEnv = (\<lambda>d len opCode s. close serverEnv 1000 [] 0 s)"
  "pingHandler closingEnv = (\<lambda>d len s. close serverEnv 1000 [] 0 s)"
  "hub_inflate closingEnv = (\<lambda>d len cap. if len \<le> cap then Some (take len d, len) else None)"
  "hub_deflate closingEnv = (\<lambda>d len w. (take len d, len))"
  "isValidUtf8 closingEnv = (\<lambda>d len. list_all (\<lambda>b. b < 0x80) (take len d))"
  "socketWrite closingEnv = (\<lambda>s d. WriteDrained)"
  "isServer closingEnv = True"
  "forceClose closingEnv = terminate bareEnv"
  by (simp_all add: closingEnv_def serverEnv_def bareEnv_def)

lemma openConnection_frames: "framesWritten openConnection = []"
  by (simp add: framesWritten_def openConnection_def)

lemma four: "Suc (Suc (Suc (Suc 0))) = 4"
  by simp

lemma echo_frame:
  "framesWritten (send serverEnv d len opCode None False s) =
     framesWritten s @ [formatMessage serverEnv d len opCode len False]"
  by (simp add: send_frames serverEnv_fields transform_def)

section \<open>Data frames\<close>

lemma data_opCode:
  assumes "opCode \<in> {0, TEXT, BINARY}"
  shows "opCode < 3" and "opCode = 1 \<longleftrightarrow> opCode = TEXT"
  using assms by (auto simp: TEXT_def BINARY_def)

lemma deliverDirect_data:
  assumes "opCode \<in> {0, TEXT, BINARY}"
  shows "deliverDirect e p n opCode t =
      (if opCode = TEXT \<and> \<not> isValidUtf8 e p n then (forceClose e t, True)
       else (messageHandler e p n opCode t,
             closed (messageHandler e p n opCode t) \<or> shuttingDown (messageHandler e p n opCode t)))"
  using data_opCode(2) [OF assms]
  by (simp add: deliverDirect_def Let_def isClosed_def isShuttingDown_def)

text \<open>
  C1. A data frame that arrives complete in one slice while the fragment buffer is empty
  is delivered from the slice, and the buffer stays empty. If the frame is marked
  compressed, the status goes back to \<open>ENABLED\<close> and the payload is inflated under
  \<open>maxPayload\<close>; when that fails \<open>forceClose\<close> is called and the result is true. A TEXT
  payload (inflated or not) that is not valid UTF-8 leads to \<open>forceClose\<close> and true, and
  the message handler is not called. Otherwise the message handler is called with the
  payload, its length and the opcode, and the result tells whether the connection is
  closed or shutting down afterwards.
\<close>

theorem handleFragment_direct_data:
  assumes "opCode \<in> {0, TEXT, BINARY}" and "fragmentBuffer s = []"
  shows "let compressed = (compressionStatus s = COMPRESSED_FRAME);
             s0 = (if compressed then s\<lparr>compressionStatus := ENABLED\<rparr> else s);
             payload = (if compressed then hub_inflate e d len (maxPayload e) else Some (d, len))
         in handleFragment e d len 0 opCode True s =
              Some (case payload of
                      None \<Rightarrow> (forceClose e s0, True)
                    | Some (p, n) \<Rightarrow>
                        if opCode = TEXT \<and> \<not> isValidUtf8 e p n then (forceClose e s0, True)
                        else (messageHandler e p n opCode s0,
                              closed (messageHandler e p n opCode s0)
                                \<or> shuttingDown (messageHandler e p n opCode s0)))
            \<and> fragmentBuffer s0 = []"
proof -
  have direct: "handleFragment e d len 0 opCode True s = Some (handleDataDirect e d len opCode s)"
    using assms data_opCode(1) [OF assms(1)] by (simp add: handleFragment_def)
  show ?thesis
  proof (cases "compressionStatus s = COMPRESSED_FRAME")
    case False
    then show ?thesis
      unfolding direct Let_def using assms(2)
      by (simp add: handleDataDirect_def deliverDirect_data [OF assms(1)])
  next
    case True
    show ?thesis
    proof (cases "hub_inflate e d len (maxPayload e)")
      case None
      with True show ?thesis
        unfolding direct Let_def using assms(2) by (simp add: handleDataDirect_def Let_def)
    next
      case (Some r)
      obtain p n where r: "r = (p, n)" by (cases r)
      show ?thesis
        unfolding direct Let_def using assms(2) True Some r
        by (simp add: handleDataDirect_def Let_def deliverDirect_data [OF assms(1)])
    qed
  qed
qed

theorem handleFragment_direct_data_witness:
  "TEXT \<in> {0, TEXT, BINARY} \<and> fragmentBuffer openConnection = [] \<and>
   handleFragment echoEnv (bytes_of ''Hello'') 5 0 TEXT True openConnection =
     Some (send serverEnv (bytes_of ''Hello'') 5 TEXT None False openConnection, False) \<and>
   framesWritten (send serverEnv (bytes_of ''Hello'') 5 TEXT None False openConnection) =
     [[0x81, 0x05, 0x48, 0x65, 0x6C, 0x6C, 0x6F]] \<and>
   handleFragment echoEnv [0xC0, 0x80] 2 0 TEXT True openConnection =
     Some (terminate bareEnv openConnection, True)"
proof -
  have a: "TEXT \<in> {0, TEXT, BINARY}"
    by simp
  have b: "fragmentBuffer openConnection = []"
    by (simp add: openConnection_fields)
  have ascii: "list_all (\<lambda>b. b < (0x80 :: byte)) (bytes_of ''Hello'')"
    by (simp add: bytes_of_def byte_of_def)
  have frame: "framesWritten (send serverEnv (bytes_of ''Hello'') 5 TEXT None False openConnection) =
      [[0x81, 0x05, 0x48, 0x65, 0x6C, 0x6C, 0x6F]]"
    by (simp add: echo_frame openConnection_frames formatMessage_def
        lengthField_def serverEnv_fields TEXT_def bytes_of_def byte_of_def Let_def)
  have hello: "handleFragment echoEnv (bytes_of ''Hello'') 5 0 TEXT True openConnection =
      Some (send serverEnv (bytes_of ''Hello'') 5 TEXT None False openConnection, False)"
    using handleFragment_direct_data [OF a b, where e = echoEnv and d = "bytes_of ''Hello''" and len = 5]
      ascii
    by (simp add: Let_def openConnection_fields echoEnv_fields bytes_of_def)
  have bad: "handleFragment echoEnv [0xC0, 0x80] 2 0 TEXT True openConnection =
      Some (terminate bareEnv openConnection, True)"
    using handleFragment_direct_data [OF a b, where e = echoEnv and d = "[0xC0, 0x80]" and len = 2]
    by (simp add: Let_def openConnection_fields echoEnv_fields)
  show ?thesis
    using a b hello frame bad by simp
qed

text \<open>
  C4 (as amended). On the final frame of a message whose earlier fragments are in the
  buffer, when the message is marked compressed, the status goes back to \<open>ENABLED\<close>,
  the four bytes of the literal \<^verbatim>\<open>"...."\<close> (\<open>0x2E\<close> each, not \<^verbatim>\<open>00 00 FF FF\<close>) are
  appended to the buffer, and \<^verbatim>\<open>inflate\<close> is called on the buffer with the byte count
  taken at line 212, before the four bytes were appended: the bytes counted for
  \<^verbatim>\<open>inflate\<close> are the accumulated payload, and the four bytes lie directly behind them.
  When \<^verbatim>\<open>inflate\<close> fails, \<open>forceClose\<close> is called and the result is true; otherwise the
  inflated payload is validated and dispatched.
\<close>

theorem handleFragment_buffered_compressed:
  assumes "opCode \<in> {0, TEXT, BINARY}" and "fragmentBuffer s \<noteq> []"
    and "compressionStatus s = COMPRESSED_FRAME"
  shows "let accumulated = fragmentBuffer s @ take len d;
             pad = [0x2E, 0x2E, 0x2E, 0x2E];
             s2 = s\<lparr>compressionStatus := ENABLED, fragmentBuffer := accumulated @ pad\<rparr>
         in handleFragment e d len 0 opCode True s =
              Some (case hub_inflate e (accumulated @ pad) (length accumulated) (maxPayload e) of
                      None \<Rightarrow> (forceClose e s2, True)
                    | Some (p, n) \<Rightarrow> deliverBuffered e p n opCode s2) \<and>
            take (length accumulated) (accumulated @ pad) = accumulated \<and>
            drop (length accumulated) (accumulated @ pad) = pad \<and>
            pad \<noteq> [0x00, 0x00, 0xFF, 0xFF]"
proof -
  have buffered: "handleFragment e d len 0 opCode True s =
      Some (handleDataBuffered e d len 0 opCode True s)"
    using assms data_opCode(1) [OF assms(1)] by (simp add: handleFragment_def)
  have dots: "bytes_of ''....'' = [0x2E, 0x2E, 0x2E, 0x2E]"
    by (simp add: bytes_of_def byte_of_def)
  have run: "handleFragment e d len 0 opCode True s =
      Some (case hub_inflate e ((fragmentBuffer s @ take len d) @ [0x2E, 0x2E, 0x2E, 0x2E])
                   (length (fragmentBuffer s @ take len d)) (maxPayload e) of
              None \<Rightarrow>
                (forceClose e
                   (s\<lparr>compressionStatus := ENABLED,
                      fragmentBuffer := (fragmentBuffer s @ take len d) @ [0x2E, 0x2E, 0x2E, 0x2E]\<rparr>),
                 True)
            | Some (p, n) \<Rightarrow>
                deliverBuffered e p n opCode
                  (s\<lparr>compressionStatus := ENABLED,
                     fragmentBuffer := (fragmentBuffer s @ take len d) @ [0x2E, 0x2E, 0x2E, 0x2E]\<rparr>))"
    unfolding buffered
    using assms(3)
    by (simp add: handleDataBuffered_def Let_def dots split: option.splits)
  have counted: "take (length a) (a @ p) = a" "drop (length a) (a @ p) = p"
    for a p :: "byte list"
    by simp_all
  have pad: "[0x2E, 0x2E, 0x2E, 0x2E] \<noteq> [0x00, 0x00, 0xFF, 0xFF :: byte]"
    by simp
  show ?thesis
    unfolding Let_def using run counted pad by blast
qed

theorem handleFragment_buffered_compressed_witness:
  "BINARY \<in> {0, TEXT, BINARY} \<and> fragmentBuffer compressedFragments \<noteq> [] \<and>
   compressionStatus compressedFragments = COMPRESSED_FRAME \<and>
   handleFragment echoEnv (bytes_of ''CD'') 2 0 BINARY True compressedFragments =
     Some ((send serverEnv (bytes_of ''ABCD'') 4 BINARY None False
              (compressedFragments
                 \<lparr>compressionStatus := ENABLED, fragmentBuffer := bytes_of ''ABCD....''\<rparr>))
             \<lparr>fragmentBuffer := []\<rparr>, False) \<and>
   handleFragment (echoEnv\<lparr>maxPayload := 3\<rparr>) (bytes_of ''CD'') 2 0 BINARY True compressedFragments =
     Some (terminate bareEnv
             (compressedFragments
                \<lparr>compressionStatus := ENABLED, fragmentBuffer := bytes_of ''ABCD....''\<rparr>), True)"
proof -
  have a: "BINARY \<in> {0, TEXT, BINARY}"
    by simp
  have b: "fragmentBuffer compressedFragments \<noteq> []"
    by (simp add: compressedFragments_def bytes_of_def)
  have c: "compressionStatus compressedFragments = COMPRESSED_FRAME"
    by (simp add: compressedFragments_def)
  have buf: "fragmentBuffer compressedFragments = bytes_of ''AB''"
    by (simp add: compressedFragments_def)
  have open_after: "\<not> closed compressedFragments" "\<not> shuttingDown compressedFragments"
    by (simp_all add: compressedFragments_def openConnection_def)
  have ok: "handleFragment echoEnv (bytes_of ''CD'') 2 0 BINARY True compressedFragments =
     Some ((send serverEnv (bytes_of ''ABCD'') 4 BINARY None False
              (compressedFragments
                 \<lparr>compressionStatus := ENABLED, fragmentBuffer := bytes_of ''ABCD....''\<rparr>))
             \<lparr>fragmentBuffer := []\<rparr>, False)"
    using handleFragment_buffered_compressed [OF a b c, where e = echoEnv
        and d = "bytes_of ''CD''" and len = 2]
    by (simp add: Let_def buf echoEnv_fields deliverBuffered_def BINARY_def isClosed_def
        isShuttingDown_def open_after bytes_of_def byte_of_def four)
  have small: "maxPayload (echoEnv\<lparr>maxPayload := 3\<rparr>) = 3"
    "hub_inflate (echoEnv\<lparr>maxPayload := 3\<rparr>) = hub_inflate echoEnv"
    "forceClose (echoEnv\<lparr>maxPayload := 3\<rparr>) = forceClose echoEnv"
    by simp_all
  have fail: "handleFragment (echoEnv\<lparr>maxPayload := 3\<rparr>) (bytes_of ''CD'') 2 0 BINARY True
        compressedFragments =
     Some (terminate bareEnv
             (compressedFragments
                \<lparr>compressionStatus := ENABLED, fragmentBuffer := bytes_of ''ABCD....''\<rparr>), True)"
    using handleFragment_buffered_compressed [OF a b c, where e = "echoEnv\<lparr>maxPayload := 3\<rparr>"
        and d = "bytes_of ''CD''" and len = 2]
    by (simp add: Let_def buf small echoEnv_fields bytes_of_def byte_of_def)
  show ?thesis
    using a b c ok fail by simp
qed

lemma tailEnv_fields:
  "maxPayload tailEnv = 1024"
  "hub_inflate tailEnv = (\<lambda>d len cap.
        if take 4 (drop len d) = [0x00, 0x00, 0xFF, 0xFF] \<and> len \<le> cap
        then Some (take len d, len) else None)"
  "forceClose tailEnv = terminate bareEnv"
  by (simp_all add: tailEnv_def echoEnv_def serverEnv_def bareEnv_def)

text \<open>
  The claim as stated fails: the four bytes appended at line 215 are \<^verbatim>\<open>2E 2E 2E 2E\<close>, not
  \<^verbatim>\<open>00 00 FF FF\<close>, and the count handed to \<^verbatim>\<open>inflate\<close> ends before them. With \<^verbatim>\<open>"AB"\<close>
  buffered and the final fragment \<^verbatim>\<open>"CD"\<close>, a codec that expects the sync tail behind
  the bytes it is counted refuses the message, which it takes when the tail is in
  place; a codec that returns the bytes it is counted returns \<^verbatim>\<open>"ABCD"\<close>, four bytes:
  the appended bytes are not among the bytes handed to it.
\<close>

theorem handleFragment_buffered_compressed_counterexample:
  "handleFragment tailEnv (bytes_of ''CD'') 2 0 BINARY True compressedFragments =
     Some (terminate bareEnv
             (compressedFragments
                \<lparr>compressionStatus := ENABLED,
                 fragmentBuffer := [0x41, 0x42, 0x43, 0x44, 0x2E, 0x2E, 0x2E, 0x2E]\<rparr>), True) \<and>
   hub_inflate tailEnv [0x41, 0x42, 0x43, 0x44, 0x00, 0x00, 0xFF, 0xFF] 4 (maxPayload tailEnv) =
     Some ([0x41, 0x42, 0x43, 0x44], 4) \<and>
   map_option (\<lambda>(s, stop). (framesWritten s, stop))
     (handleFragment echoEnv (bytes_of ''CD'') 2 0 BINARY True compressedFragments) =
     Some ([[0x82, 0x04, 0x41, 0x42, 0x43, 0x44]], False)"
proof -
  have state: "fragmentBuffer compressedFragments = bytes_of ''AB''"
    "compressionStatus compressedFragments = COMPRESSED_FRAME"
    "\<not> closed compressedFragments" "\<not> shuttingDown compressedFragments"
    "framesWritten compressedFragments = []"
    by (simp_all add: compressedFragments_def openConnection_def framesWritten_def)
  have untouched: "framesWritten (t\<lparr>fragmentBuffer := b\<rparr>) = framesWritten t"
    "framesWritten (t\<lparr>compressionStatus := c\<rparr>) = framesWritten t" for t b c
    by (simp_all add: framesWritten_def)
  have refused: "handleFragment tailEnv (bytes_of ''CD'') 2 0 BINARY True compressedFragments =
     Some (terminate bareEnv
             (compressedFragments
                \<lparr>compressionStatus := ENABLED,
                 fragmentBuffer := [0x41, 0x42, 0x43, 0x44, 0x2E, 0x2E, 0x2E, 0x2E]\<rparr>), True)"
    by (simp add: handleFragment_def handleDataBuffered_def Let_def BINARY_def state
        tailEnv_fields bytes_of_def byte_of_def four)
  have taken: "hub_inflate tailEnv [0x41, 0x42, 0x43, 0x44, 0x00, 0x00, 0xFF, 0xFF] 4
      (maxPayload tailEnv) = Some ([0x41, 0x42, 0x43, 0x44], 4)"
    by (simp add: tailEnv_fields)
  have counted: "map_option (\<lambda>(s, stop). (framesWritten s, stop))
     (handleFragment echoEnv (bytes_of ''CD'') 2 0 BINARY True compressedFragments) =
     Some ([[0x82, 0x04, 0x41, 0x42, 0x43, 0x44]], False)"
    by (simp add: handleFragment_def handleDataBuffered_def deliverBuffered_def Let_def
        BINARY_def state echoEnv_fields isClosed_def isShuttingDown_def bytes_of_def
        byte_of_def four echo_frame formatMessage_def lengthField_def serverEnv_fields
        untouched)
  show ?thesis
    using refused taken counted by simp
qed

section \<open>The fragment buffer after a dispatch\<close>

lemma deliverDirect_buffer:
  assumes "\<And>p n opCode t. fragmentBuffer (messageHandler e p n opCode t) = fragmentBuffer t"
    and "\<And>t. fragmentBuffer (forceClose e t) = fragmentBuffer t"
  shows "fragmentBuffer (fst (deliverDirect e p n opCode t)) = fragmentBuffer t"
  using assms by (simp add: deliverDirect_def Let_def)

lemma deliverBuffered_open:
  assumes "deliverBuffered e p n opCode t = (s', False)"
  shows "fragmentBuffer s' = []"
  using assms by (auto simp: deliverBuffered_def Let_def split: if_splits)

lemma handleDataDirect_buffer:
  assumes "\<And>p n opCode t. fragmentBuffer (messageHandler e p n opCode t) = fragmentBuffer t"
    and "\<And>t. fragmentBuffer (forceClose e t) = fragmentBuffer t"
  shows "fragmentBuffer (fst (handleDataDirect e d len opCode s)) = fragmentBuffer s"
  using assms
  by (simp add: handleDataDirect_def Let_def deliverDirect_buffer split: option.splits)

lemma handleDataBuffered_open:
  assumes "handleDataBuffered e d len 0 opCode True s = (s', False)"
  shows "fragmentBuffer s' = []"
  using assms
  by (auto simp: handleDataBuffered_def Let_def split: if_splits option.splits
      dest: deliverBuffered_open)

text \<open>
  C7 (as amended). Let a final data frame (\<open>fin\<close> set, no bytes remaining) be handled,
  with a message handler and a \<open>forceClose\<close> that leave the fragment buffer alone (they
  reach the connection through \<open>send\<close>, \<open>close\<close> and \<open>terminate\<close> only). If the frame took
  the single-slice path (the buffer was empty), the buffer is empty afterwards. If it
  took the reassembly path, the buffer is empty afterwards whenever \<open>handleFragment\<close>
  returns false, that is whenever the connection is neither closed nor shutting down
  when the message handler returns.
\<close>

theorem fragmentBuffer_after_dispatch:
  assumes "opCode \<in> {0, TEXT, BINARY}"
    and "\<And>p n opCode t. fragmentBuffer (messageHandler e p n opCode t) = fragmentBuffer t"
    and "\<And>t. fragmentBuffer (forceClose e t) = fragmentBuffer t"
    and "handleFragment e d len 0 opCode True s = Some (s', stop)"
    and "fragmentBuffer s = [] \<or> \<not> stop"
  shows "fragmentBuffer s' = []"
proof (cases "fragmentBuffer s = []")
  case True
  then have "handleDataDirect e d len opCode s = (s', stop)"
    using assms(4) data_opCode(1) [OF assms(1)] by (simp add: handleFragment_def)
  then have "fragmentBuffer s' = fragmentBuffer s"
    using handleDataDirect_buffer [of e d len opCode s, OF assms(2,3)] by simp
  with True show ?thesis by simp
next
  case False
  then have "\<not> stop"
    using assms(5) by simp
  then have "handleDataBuffered e d len 0 opCode True s = (s', False)"
    using assms(4) False data_opCode(1) [OF assms(1)] by (simp add: handleFragment_def)
  then show ?thesis
    by (rule handleDataBuffered_open)
qed

theorem fragmentBuffer_after_dispatch_witness:
  "BINARY \<in> {0, TEXT, BINARY} \<and>
   (\<forall>p n opCode t. fragmentBuffer (messageHandler echoEnv p n opCode t) = fragmentBuffer t) \<and>
   (\<forall>t. fragmentBuffer (forceClose echoEnv t) = fragmentBuffer t) \<and>
   handleFragment echoEnv (bytes_of ''CD'') 2 0 BINARY True fragmentedConnection =
     Some ((send serverEnv (bytes_of ''ABCD'') 4 BINARY None False
              (fragmentedConnection\<lparr>fragmentBuffer := bytes_of ''ABCD''\<rparr>))
             \<lparr>fragmentBuffer := []\<rparr>, False) \<and>
   fragmentBuffer
     ((send serverEnv (bytes_of ''ABCD'') 4 BINARY None False
         (fragmentedConnection\<lparr>fragmentBuffer := bytes_of ''ABCD''\<rparr>))
        \<lparr>fragmentBuffer := []\<rparr>) = []"
proof -
  have a: "BINARY \<in> {0, TEXT, BINARY}"
    by simp
  have hnd: "fragmentBuffer (messageHandler echoEnv p n opCode t) = fragmentBuffer t"
    for p n opCode t
    by (simp add: echoEnv_fields)
  have fc: "fragmentBuffer (forceClose echoEnv t) = fragmentBuffer t" for t
    by (simp add: echoEnv_fields terminate_buffer bareEnv_fields)
  have run: "handleFragment echoEnv (bytes_of ''CD'') 2 0 BINARY True fragmentedConnection =
     Some ((send serverEnv (bytes_of ''ABCD'') 4 BINARY None False
              (fragmentedConnection\<lparr>fragmentBuffer := bytes_of ''ABCD''\<rparr>))
             \<lparr>fragmentBuffer := []\<rparr>, False)"
    by (simp add: handleFragment_def handleDataBuffered_def deliverBuffered_def Let_def
        BINARY_def echoEnv_fields isClosed_def isShuttingDown_def fragmentedConnection_def
        openConnection_def bytes_of_def four)
  show ?thesis
    using fragmentBuffer_after_dispatch [OF a hnd fc run] a hnd fc run by simp
qed

text \<open>
  The claim as stated fails on the reassembly path when the message handler closes the
  connection: \<open>handleFragment\<close> returns true at line 232, before the buffer is cleared.
  With \<^verbatim>\<open>"AB"\<close> buffered, the final fragment \<^verbatim>\<open>"CD"\<close> is dispatched to a handler that
  calls \<^verbatim>\<open>close(1000)\<close>, and the buffer still holds \<^verbatim>\<open>"ABCD"\<close> afterwards.
\<close>

theorem fragmentBuffer_after_dispatch_counterexample:
  "handleFragment closingEnv (bytes_of ''CD'') 2 0 BINARY True fragmentedConnection =
     Some (close serverEnv 1000 [] 0
             (fragmentedConnection\<lparr>fragmentBuffer := bytes_of ''ABCD''\<rparr>), True) \<and>
   fragmentBuffer
     (close serverEnv 1000 [] 0 (fragmentedConnection\<lparr>fragmentBuffer := bytes_of ''ABCD''\<rparr>))
     = [0x41, 0x42, 0x43, 0x44]"
proof -
  have buf: "fragmentBuffer (close serverEnv 1000 [] 0 t) = fragmentBuffer t" for t
    by (simp add: close_buffer serverEnv_fields)
  have run: "handleFragment closingEnv (bytes_of ''CD'') 2 0 BINARY True fragmentedConnection =
     Some (close serverEnv 1000 [] 0
             (fragmentedConnection\<lparr>fragmentBuffer := bytes_of ''ABCD''\<rparr>), True)"
    by (simp add: handleFragment_def handleDataBuffered_def deliverBuffered_def Let_def
        BINARY_def closingEnv_fields isClosed_def close_closed fragmentedConnection_def
        openConnection_def bytes_of_def)
  show ?thesis
    using run by (simp add: buf bytes_of_def byte_of_def)
qed

section \<open>PING frames\<close>







lemma echoEnv_ping:
  "pingHandler echoEnv = (\<lambda>d len s. s)" "defaultCompress echoEnv = True"
  "UWS_THREADSAFE echoEnv = False" "isServer echoEnv = True"
  by (simp_all add: echoEnv_def serverEnv_def bareEnv_def)



lemma fragmentedConnection_fields:
  "fragmentBuffer fragmentedConnection = bytes_of ''AB''"
  "controlTipLength fragmentedConnection = 0"
  "closed fragmentedConnection = False" "shuttingDown fragmentedConnection = False"
  "framesWritten fragmentedConnection = []"
  by (simp_all add: fragmentedConnection_def openConnection_def framesWritten_def)



section \<open>The upgrade response\<close>






section \<open>The sample handshake of RFC 6455\<close>



















section \<open>Scenarios of the specification\<close>

lemma framesWritten_updates [simp]:
  "framesWritten (s\<lparr>fragmentBuffer := b\<rparr>) = framesWritten s"
  "framesWritten (s\<lparr>controlTipLength := k\<rparr>) = framesWritten s"
  "framesWritten (s\<lparr>compressionStatus := c\<rparr>) = framesWritten s"
  by (simp_all add: framesWritten_def)

lemma six: "Suc (Suc (Suc (Suc (Suc (Suc 0))))) = 6"
  by simp

text \<open>Fragmented binary: \<^verbatim>\<open>BINARY(fin=0, "AB")\<close>, \<^verbatim>\<open>CONTINUATION(fin=0, "CD")\<close>,
  \<^verbatim>\<open>CONTINUATION(fin=1, "EF")\<close> reach the message handler once, as \<^verbatim>\<open>"ABCDEF"\<close> with
  opcode 2 (the echo shows it), and leave the buffer empty.\<close>

lemma scenario_fragmented_binary:
  "map_option (\<lambda>(s, stop). (framesWritten s, fragmentBuffer s, stop))
     (feedFragments echoEnv
        [(bytes_of ''AB'', 2, 0, BINARY, False),
         (bytes_of ''CD'', 2, 0, BINARY, False),
         (bytes_of ''EF'', 2, 0, BINARY, True)]
        openConnection)
   = Some ([[0x82, 0x06, 0x41, 0x42, 0x43, 0x44, 0x45, 0x46]], [], False)"
  by (simp add: handleFragment_def handleDataBuffered_def deliverBuffered_def Let_def
      BINARY_def echoEnv_fields isClosed_def isShuttingDown_def openConnection_fields
      openConnection_frames bytes_of_def byte_of_def echo_frame formatMessage_def
      lengthField_def serverEnv_fields six)

text \<open>Ping between fragments: \<^verbatim>\<open>BINARY(fin=0, "AB")\<close>, \<^verbatim>\<open>PING(fin=1, "x")\<close>,
  \<^verbatim>\<open>CONTINUATION(fin=1, "CD")\<close>. The PONG \<^verbatim>\<open>"x"\<close> is written first, then the message
  handler gets \<^verbatim>\<open>"ABCD"\<close>.\<close>

lemma scenario_ping_between_fragments:
  "map_option (\<lambda>(s, stop). (framesWritten s, fragmentBuffer s, controlTipLength s, stop))
     (feedFragments echoEnv
        [(bytes_of ''AB'', 2, 0, BINARY, False),
         (bytes_of ''x'', 1, 0, PING, True),
         (bytes_of ''CD'', 2, 0, BINARY, True)]
        openConnection)
   = Some ([[0x8A, 0x01, 0x78], [0x82, 0x04, 0x41, 0x42, 0x43, 0x44]], [], 0, False)"
  by (simp add: handleFragment_def handleDataBuffered_def deliverBuffered_def
      handleControlDirect_def Let_def BINARY_def PING_def PONG_def CLOSE_def echoEnv_fields
      echoEnv_ping isClosed_def isShuttingDown_def openConnection_fields
      openConnection_frames bytes_of_def byte_of_def send_frames transform_def
      formatMessage_def lengthField_def serverEnv_fields four)

text \<open>The same with the PING payload \<^verbatim>\<open>"xy"\<close> arriving in two slices, so that the PING
  is accumulated as a control tip behind \<^verbatim>\<open>"AB"\<close>: the PONG \<^verbatim>\<open>"xy"\<close> is written first, the
  tip is dropped, and the message handler gets \<^verbatim>\<open>"ABCD"\<close>.\<close>

lemma scenario_sliced_ping_between_fragments:
  "map_option (\<lambda>(s, stop). (framesWritten s, fragmentBuffer s, controlTipLength s, stop))
     (feedFragments echoEnv
        [(bytes_of ''AB'', 2, 0, BINARY, False),
         (bytes_of ''x'', 1, 1, PING, True),
         (bytes_of ''y'', 1, 0, PING, True),
         (bytes_of ''CD'', 2, 0, BINARY, True)]
        openConnection)
   = Some ([[0x8A, 0x02, 0x78, 0x79], [0x82, 0x04, 0x41, 0x42, 0x43, 0x44]], [], 0, False)"
  by (simp add: handleFragment_def handleDataBuffered_def deliverBuffered_def
      handleControlBuffered_def dropControlTip_def Let_def BINARY_def PING_def PONG_def
      CLOSE_def echoEnv_fields echoEnv_ping isClosed_def isShuttingDown_def
      openConnection_fields openConnection_frames bytes_of_def byte_of_def send_frames
      transform_def formatMessage_def lengthField_def serverEnv_fields four)

end
